theory Spec2Isabelle
  imports Main "HOL-Library.Word" "HOL-Library.Signed_Division"
begin

unbundle bit_operations_syntax

text \<open>
  The adaptive integer of \<^verbatim>\<open>adaptive_integer.h\<close>: a value of a fixed-width integer
  type whose four arithmetic operations are carried out by a backend chosen at compile
  time, the scalar one or one that sends the operands through an MMX, SSE or AVX
  register.  The definitions follow the headers \<^verbatim>\<open>technique_backend_scalar.h\<close>,
  \<^verbatim>\<open>technique_backend_mmx.h\<close>, \<^verbatim>\<open>technique_backend_sse.h\<close>,
  \<^verbatim>\<open>technique_backend_avx.h\<close>, \<^verbatim>\<open>adaptive_techniq.h\<close> and
  \<^verbatim>\<open>adaptive_integer.h\<close>; the theorems that follow them settle the properties
  C1 to C10 of the specification.
\<close>

section \<open>Integer types and the arithmetic of the host language\<close>

text \<open>
  The template parameter \<^verbatim>\<open>TINT\<close> is an integer type.  A value of it is a word
  \<open>'a word\<close> whose length is the number of bits of the type, together with a flag
  \<open>sg\<close> that says whether the type is signed.  \<^verbatim>\<open>sizeof(TINT)\<close> is the length in
  bytes.  The platform is the one the intrinsics belong to: \<^verbatim>\<open>int\<close> has 32 bits,
  \<^verbatim>\<open>short\<close> 16, \<^verbatim>\<open>char\<close> 8 and \<^verbatim>\<open>long long\<close> 64, in two's complement.
\<close>

definition sizeof :: "'a::len word \<Rightarrow> nat" where
  "sizeof a = LENGTH('a) div 8"

text \<open>
  An integral conversion keeps the value modulo two to the width of the target: the
  source is sign-extended when its type is signed, zero-extended otherwise, and cut to
  the target width.  \<open>sg\<close> is the signedness of the source type.
\<close>

definition conv :: "bool \<Rightarrow> 'a::len word \<Rightarrow> 'b::len word" where
  "conv sg a = (if sg then scast a else ucast a)"

text \<open>The mathematical value of a word of a signed or unsigned type.\<close>

definition ival :: "bool \<Rightarrow> 'a::len word \<Rightarrow> int" where
  "ival sg a = (if sg then sint a else uint a)"

text \<open>
  The built-in operators \<^verbatim>\<open>a + b\<close>, \<^verbatim>\<open>a - b\<close>, \<^verbatim>\<open>a * b\<close> on two operands of type
  \<^verbatim>\<open>TINT\<close>, with the result converted back to \<^verbatim>\<open>TINT\<close> by the \<^verbatim>\<open>return\<close>.  A type
  narrower than \<^verbatim>\<open>int\<close> is promoted to \<^verbatim>\<open>int\<close> first, the operation runs on 32 bits
  and the result is cut back; a type of the width of \<^verbatim>\<open>int\<close> or more is operated on
  directly.  Overflow of a signed operation is what the machine instruction gives, the
  wrapped result.
\<close>

definition c_add :: "bool \<Rightarrow> 'a::len word \<Rightarrow> 'a word \<Rightarrow> 'a word" where
  "c_add sg a b =
     (if LENGTH('a) < 32 then conv True ((conv sg a :: 32 word) + conv sg b)
      else a + b)"

definition c_sub :: "bool \<Rightarrow> 'a::len word \<Rightarrow> 'a word \<Rightarrow> 'a word" where
  "c_sub sg a b =
     (if LENGTH('a) < 32 then conv True ((conv sg a :: 32 word) - conv sg b)
      else a - b)"

definition c_mul :: "bool \<Rightarrow> 'a::len word \<Rightarrow> 'a word \<Rightarrow> 'a word" where
  "c_mul sg a b =
     (if LENGTH('a) < 32 then conv True ((conv sg a :: 32 word) * conv sg b)
      else a * b)"

text \<open>
  Division.  The quotient of two machine integers is truncated towards zero
  (\<open>sdiv\<close> on \<open>int\<close>).  The divide instruction raises the processor's divide error
  when the divisor is zero and when the quotient does not fit the operand width, which
  for a signed type of 32 or 64 bits is the one pair (smallest value, \<open>-1\<close>).  A
  narrower type is divided on 32 bits, where that quotient fits, and cut back.  A type
  wider than 64 bits is divided by a library routine that checks nothing but the
  divisor's being zero, and the quotient of that pair wraps around.
\<close>

datatype error = DivideByZero | DivideOverflow

definition word_sdiv :: "'a::len word \<Rightarrow> 'a word \<Rightarrow> 'a word" where
  "word_sdiv a b = word_of_int (sint a sdiv sint b)"

definition min_signed :: "'a::len word" where
  "min_signed = word_of_int (- (2 ^ (LENGTH('a) - 1)))"

definition c_div :: "bool \<Rightarrow> 'a::len word \<Rightarrow> 'a word \<Rightarrow> error + 'a word" where
  "c_div sg a b =
     (if b = 0 then Inl DivideByZero
      else if LENGTH('a) < 32
        then Inr (conv True (word_sdiv (conv sg a :: 32 word) (conv sg b)))
      else if sg
        then (if LENGTH('a) \<le> 64 \<and> a = min_signed \<and> b = - 1 then Inl DivideOverflow
              else Inr (word_sdiv a b))
      else Inr (a div b))"

section \<open>Member functions that cannot be instantiated\<close>

text \<open>
  A member function of a class template is compiled when it is first called, for the
  template arguments of the call, and all of its body is: a plain \<^verbatim>\<open>if\<close> on
  \<^verbatim>\<open>sizeof(TINT)\<close> removes no branch.  Where the body is ill-formed for these
  arguments the call is rejected and no program contains it.  The result of such a
  function is \<open>Ill_formed\<close>, and \<open>Well_formed r\<close> where the call compiles and
  returns \<open>r\<close>.
\<close>

datatype 'r instantiated = Ill_formed | Well_formed 'r

section \<open>The scalar backend\<close>

definition scalar_add :: "bool \<Rightarrow> 'a::len word \<Rightarrow> 'a word \<Rightarrow> 'a word" where
  "scalar_add sg a b = c_add sg a b"

definition scalar_sub :: "bool \<Rightarrow> 'a::len word \<Rightarrow> 'a word \<Rightarrow> 'a word" where
  "scalar_sub sg a b = c_sub sg a b"

definition scalar_mul :: "bool \<Rightarrow> 'a::len word \<Rightarrow> 'a word \<Rightarrow> 'a word" where
  "scalar_mul sg a b = c_mul sg a b"

definition scalar_div :: "bool \<Rightarrow> 'a::len word \<Rightarrow> 'a word \<Rightarrow> error + 'a word" where
  "scalar_div sg a b = c_div sg a b"

section \<open>Vector registers\<close>

text \<open>
  A vector register (\<^verbatim>\<open>__m64\<close>, \<^verbatim>\<open>__m128i\<close>, \<^verbatim>\<open>__m256i\<close>) is a word of 64, 128 or
  256 bits without a type of its own: an intrinsic reads it as a row of lanes of the
  width it names, lane 0 in the lowest bits.  \<open>pack\<close> builds a register from its
  lanes, \<open>lane\<close> reads one lane, \<open>lanewise\<close> applies an operation to each pair of
  lanes.
\<close>

type_synonym m64 = "64 word"
type_synonym m128i = "128 word"
type_synonym m256i = "256 word"

fun pack :: "'a::len word list \<Rightarrow> 'b::len word" where
  "pack [] = 0"
| "pack (x # xs) = ucast x OR push_bit LENGTH('a) (pack xs)"

definition lane :: "nat \<Rightarrow> 'b::len word \<Rightarrow> 'a::len word" where
  "lane i v = ucast (drop_bit (i * LENGTH('a)) v)"

definition lanes :: "nat \<Rightarrow> 'b::len word \<Rightarrow> 'a::len word list" where
  "lanes n v = map (\<lambda>i. lane i v) [0..<n]"

definition lanewise ::
  "nat \<Rightarrow> ('a::len word \<Rightarrow> 'a word \<Rightarrow> 'a word) \<Rightarrow> 'b::len word \<Rightarrow> 'b word \<Rightarrow> 'b word" where
  "lanewise n f va vb = pack (map2 f (lanes n va) (lanes n vb))"

text \<open>
  The low half of the product of two signed lanes, as the \<^verbatim>\<open>mullo\<close> instructions
  compute it: the lanes are multiplied to a product of twice the width, of which the
  lower half is stored.
\<close>

definition mullo16 :: "16 word \<Rightarrow> 16 word \<Rightarrow> 16 word" where
  "mullo16 x y = ucast ((scast x :: 32 word) * scast y)"

definition mullo32 :: "32 word \<Rightarrow> 32 word \<Rightarrow> 32 word" where
  "mullo32 x y = ucast ((scast x :: 64 word) * scast y)"

definition mullo64 :: "64 word \<Rightarrow> 64 word \<Rightarrow> 64 word" where
  "mullo64 x y = ucast ((scast x :: 128 word) * scast y)"

subsection \<open>The intrinsics of \<^verbatim>\<open>mmintrin.h\<close>\<close>

text \<open>
  \<^verbatim>\<open>_mm_empty\<close> resets the floating-point tag word and changes no value, so it has
  no counterpart here.  The leading underscore of the names is dropped.
\<close>

definition mm_set1_pi8 :: "8 word \<Rightarrow> m64" where
  "mm_set1_pi8 a = pack (replicate 8 a)"

definition mm_set1_pi16 :: "16 word \<Rightarrow> m64" where
  "mm_set1_pi16 a = pack (replicate 4 a)"

definition mm_set1_pi32 :: "32 word \<Rightarrow> m64" where
  "mm_set1_pi32 a = pack (replicate 2 a)"

definition m_from_int64 :: "64 word \<Rightarrow> m64" where
  "m_from_int64 a = a"

definition mm_add_pi8 :: "m64 \<Rightarrow> m64 \<Rightarrow> m64" where
  "mm_add_pi8 = lanewise 8 (\<lambda>x y :: 8 word. x + y)"

definition mm_add_pi16 :: "m64 \<Rightarrow> m64 \<Rightarrow> m64" where
  "mm_add_pi16 = lanewise 4 (\<lambda>x y :: 16 word. x + y)"

definition mm_add_pi32 :: "m64 \<Rightarrow> m64 \<Rightarrow> m64" where
  "mm_add_pi32 = lanewise 2 (\<lambda>x y :: 32 word. x + y)"

definition mm_add_si64 :: "m64 \<Rightarrow> m64 \<Rightarrow> m64" where
  "mm_add_si64 va vb = va + vb"

definition mm_sub_pi8 :: "m64 \<Rightarrow> m64 \<Rightarrow> m64" where
  "mm_sub_pi8 = lanewise 8 (\<lambda>x y :: 8 word. x - y)"

definition mm_sub_pi16 :: "m64 \<Rightarrow> m64 \<Rightarrow> m64" where
  "mm_sub_pi16 = lanewise 4 (\<lambda>x y :: 16 word. x - y)"

definition mm_sub_pi32 :: "m64 \<Rightarrow> m64 \<Rightarrow> m64" where
  "mm_sub_pi32 = lanewise 2 (\<lambda>x y :: 32 word. x - y)"

definition mm_sub_si64 :: "m64 \<Rightarrow> m64 \<Rightarrow> m64" where
  "mm_sub_si64 va vb = va - vb"

definition mm_mullo_pi16 :: "m64 \<Rightarrow> m64 \<Rightarrow> m64" where
  "mm_mullo_pi16 = lanewise 4 mullo16"

definition mm_cvtsi64_si32 :: "m64 \<Rightarrow> 32 word" where
  "mm_cvtsi64_si32 v = ucast v"

definition mm_cvtm64_si64 :: "m64 \<Rightarrow> 64 word" where
  "mm_cvtm64_si64 v = v"

subsection \<open>The intrinsics of \<^verbatim>\<open>emmintrin.h\<close> and \<^verbatim>\<open>smmintrin.h\<close>\<close>

definition mm_set1_epi8 :: "8 word \<Rightarrow> m128i" where
  "mm_set1_epi8 a = pack (replicate 16 a)"

definition mm_set1_epi16 :: "16 word \<Rightarrow> m128i" where
  "mm_set1_epi16 a = pack (replicate 8 a)"

definition mm_set1_epi32 :: "32 word \<Rightarrow> m128i" where
  "mm_set1_epi32 a = pack (replicate 4 a)"

definition mm_set1_epi64x :: "64 word \<Rightarrow> m128i" where
  "mm_set1_epi64x a = pack (replicate 2 a)"

definition mm_add_epi8 :: "m128i \<Rightarrow> m128i \<Rightarrow> m128i" where
  "mm_add_epi8 = lanewise 16 (\<lambda>x y :: 8 word. x + y)"

definition mm_add_epi16 :: "m128i \<Rightarrow> m128i \<Rightarrow> m128i" where
  "mm_add_epi16 = lanewise 8 (\<lambda>x y :: 16 word. x + y)"

definition mm_add_epi32 :: "m128i \<Rightarrow> m128i \<Rightarrow> m128i" where
  "mm_add_epi32 = lanewise 4 (\<lambda>x y :: 32 word. x + y)"

definition mm_add_epi64 :: "m128i \<Rightarrow> m128i \<Rightarrow> m128i" where
  "mm_add_epi64 = lanewise 2 (\<lambda>x y :: 64 word. x + y)"

definition mm_sub_epi8 :: "m128i \<Rightarrow> m128i \<Rightarrow> m128i" where
  "mm_sub_epi8 = lanewise 16 (\<lambda>x y :: 8 word. x - y)"

definition mm_sub_epi16 :: "m128i \<Rightarrow> m128i \<Rightarrow> m128i" where
  "mm_sub_epi16 = lanewise 8 (\<lambda>x y :: 16 word. x - y)"

definition mm_sub_epi32 :: "m128i \<Rightarrow> m128i \<Rightarrow> m128i" where
  "mm_sub_epi32 = lanewise 4 (\<lambda>x y :: 32 word. x - y)"

definition mm_sub_epi64 :: "m128i \<Rightarrow> m128i \<Rightarrow> m128i" where
  "mm_sub_epi64 = lanewise 2 (\<lambda>x y :: 64 word. x - y)"

definition mm_mullo_epi16 :: "m128i \<Rightarrow> m128i \<Rightarrow> m128i" where
  "mm_mullo_epi16 = lanewise 8 mullo16"

definition mm_mullo_epi32 :: "m128i \<Rightarrow> m128i \<Rightarrow> m128i" where
  "mm_mullo_epi32 = lanewise 4 mullo32"

text \<open>
  The extractions of a lane of 8 or 16 bits return an \<^verbatim>\<open>int\<close> that holds the lane
  zero-extended.
\<close>

definition mm_extract_epi8 :: "m128i \<Rightarrow> nat \<Rightarrow> 32 word" where
  "mm_extract_epi8 v i = ucast (lane i v :: 8 word)"

definition mm_extract_epi16 :: "m128i \<Rightarrow> nat \<Rightarrow> 32 word" where
  "mm_extract_epi16 v i = ucast (lane i v :: 16 word)"

definition mm_extract_epi32 :: "m128i \<Rightarrow> nat \<Rightarrow> 32 word" where
  "mm_extract_epi32 v i = lane i v"

definition mm_extract_epi64 :: "m128i \<Rightarrow> nat \<Rightarrow> 64 word" where
  "mm_extract_epi64 v i = lane i v"

subsection \<open>The intrinsics of \<^verbatim>\<open>immintrin.h\<close>\<close>

definition mm256_set1_epi8 :: "8 word \<Rightarrow> m256i" where
  "mm256_set1_epi8 a = pack (replicate 32 a)"

definition mm256_set1_epi16 :: "16 word \<Rightarrow> m256i" where
  "mm256_set1_epi16 a = pack (replicate 16 a)"

definition mm256_set1_epi32 :: "32 word \<Rightarrow> m256i" where
  "mm256_set1_epi32 a = pack (replicate 8 a)"

definition mm256_set1_epi64x :: "64 word \<Rightarrow> m256i" where
  "mm256_set1_epi64x a = pack (replicate 4 a)"

text \<open>\<^verbatim>\<open>_mm256_set_epi64x\<close> takes the highest lane first.\<close>

definition mm256_set_epi64x :: "64 word \<Rightarrow> 64 word \<Rightarrow> 64 word \<Rightarrow> 64 word \<Rightarrow> m256i" where
  "mm256_set_epi64x e3 e2 e1 e0 = pack [e0, e1, e2, e3]"

definition mm256_add_epi8 :: "m256i \<Rightarrow> m256i \<Rightarrow> m256i" where
  "mm256_add_epi8 = lanewise 32 (\<lambda>x y :: 8 word. x + y)"

definition mm256_add_epi16 :: "m256i \<Rightarrow> m256i \<Rightarrow> m256i" where
  "mm256_add_epi16 = lanewise 16 (\<lambda>x y :: 16 word. x + y)"

definition mm256_add_epi32 :: "m256i \<Rightarrow> m256i \<Rightarrow> m256i" where
  "mm256_add_epi32 = lanewise 8 (\<lambda>x y :: 32 word. x + y)"

definition mm256_add_epi64 :: "m256i \<Rightarrow> m256i \<Rightarrow> m256i" where
  "mm256_add_epi64 = lanewise 4 (\<lambda>x y :: 64 word. x + y)"

definition mm256_sub_epi8 :: "m256i \<Rightarrow> m256i \<Rightarrow> m256i" where
  "mm256_sub_epi8 = lanewise 32 (\<lambda>x y :: 8 word. x - y)"

definition mm256_sub_epi16 :: "m256i \<Rightarrow> m256i \<Rightarrow> m256i" where
  "mm256_sub_epi16 = lanewise 16 (\<lambda>x y :: 16 word. x - y)"

definition mm256_sub_epi32 :: "m256i \<Rightarrow> m256i \<Rightarrow> m256i" where
  "mm256_sub_epi32 = lanewise 8 (\<lambda>x y :: 32 word. x - y)"

definition mm256_sub_epi64 :: "m256i \<Rightarrow> m256i \<Rightarrow> m256i" where
  "mm256_sub_epi64 = lanewise 4 (\<lambda>x y :: 64 word. x - y)"

definition mm256_mullo_epi16 :: "m256i \<Rightarrow> m256i \<Rightarrow> m256i" where
  "mm256_mullo_epi16 = lanewise 16 mullo16"

definition mm256_mullo_epi32 :: "m256i \<Rightarrow> m256i \<Rightarrow> m256i" where
  "mm256_mullo_epi32 = lanewise 8 mullo32"

definition mm256_mullo_epi64 :: "m256i \<Rightarrow> m256i \<Rightarrow> m256i" where
  "mm256_mullo_epi64 = lanewise 4 mullo64"

definition mm256_extract_epi8 :: "m256i \<Rightarrow> nat \<Rightarrow> 32 word" where
  "mm256_extract_epi8 v i = ucast (lane i v :: 8 word)"

definition mm256_extract_epi16 :: "m256i \<Rightarrow> nat \<Rightarrow> 32 word" where
  "mm256_extract_epi16 v i = ucast (lane i v :: 16 word)"

definition mm256_extract_epi32 :: "m256i \<Rightarrow> nat \<Rightarrow> 32 word" where
  "mm256_extract_epi32 v i = lane i v"

definition mm256_extract_epi64 :: "m256i \<Rightarrow> nat \<Rightarrow> 64 word" where
  "mm256_extract_epi64 v i = lane i v"

section \<open>The MMX backend\<close>

text \<open>
  In every function of the vector backends the result variable starts as \<open>0\<close> and
  the branch taken for \<^verbatim>\<open>sizeof(TINT)\<close> assigns it.  The operands are converted to
  the parameter type of the broadcasting intrinsic, the value read back is an \<^verbatim>\<open>int\<close>
  or a \<^verbatim>\<open>long long\<close> and is converted to \<^verbatim>\<open>value_type\<close>.
\<close>

definition mmx_add :: "bool \<Rightarrow> 'a::len word \<Rightarrow> 'a word \<Rightarrow> 'a word" where
  "mmx_add sg a b =
     (if sizeof a = 1 then
          (let va = mm_set1_pi8 (conv sg a); vb = mm_set1_pi8 (conv sg b);
               vc = mm_add_pi8 va vb
           in conv True (mm_cvtsi64_si32 vc))
      else if sizeof a = 2 then
          (let va = mm_set1_pi16 (conv sg a); vb = mm_set1_pi16 (conv sg b);
               vc = mm_add_pi16 va vb
           in conv True (mm_cvtsi64_si32 vc))
      else if sizeof a = 4 then
          (let va = mm_set1_pi32 (conv sg a); vb = mm_set1_pi32 (conv sg b);
               vc = mm_add_pi32 va vb
           in conv True (mm_cvtsi64_si32 vc))
      else if sizeof a = 8 then
          (let va = m_from_int64 (conv sg a); vb = m_from_int64 (conv sg b);
               vc = mm_add_si64 va vb
           in conv True (mm_cvtm64_si64 vc))
      else c_add sg a b)"

definition mmx_sub :: "bool \<Rightarrow> 'a::len word \<Rightarrow> 'a word \<Rightarrow> 'a word" where
  "mmx_sub sg a b =
     (if sizeof a = 1 then
          (let va = mm_set1_pi8 (conv sg a); vb = mm_set1_pi8 (conv sg b);
               vc = mm_sub_pi8 va vb
           in conv True (mm_cvtsi64_si32 vc))
      else if sizeof a = 2 then
          (let va = mm_set1_pi16 (conv sg a); vb = mm_set1_pi16 (conv sg b);
               vc = mm_sub_pi16 va vb
           in conv True (mm_cvtsi64_si32 vc))
      else if sizeof a = 4 then
          (let va = mm_set1_pi32 (conv sg a); vb = mm_set1_pi32 (conv sg b);
               vc = mm_sub_pi32 va vb
           in conv True (mm_cvtsi64_si32 vc))
      else if sizeof a = 8 then
          (let va = m_from_int64 (conv sg a); vb = m_from_int64 (conv sg b);
               vc = mm_sub_si64 va vb
           in conv True (mm_cvtm64_si64 vc))
      else c_sub sg a b)"

definition mmx_mul :: "bool \<Rightarrow> 'a::len word \<Rightarrow> 'a word \<Rightarrow> 'a word" where
  "mmx_mul sg a b =
     (if sizeof a = 1 then
          (let va = mm_set1_pi16 (conv sg a); vb = mm_set1_pi16 (conv sg b);
               vc = mm_mullo_pi16 va vb
           in conv True (mm_cvtsi64_si32 vc))
      else if sizeof a = 2 then
          (let va = mm_set1_pi16 (conv sg a); vb = mm_set1_pi16 (conv sg b);
               vc = mm_mullo_pi16 va vb
           in conv True (mm_cvtsi64_si32 vc))
      else c_mul sg a b)"

definition mmx_div :: "bool \<Rightarrow> 'a::len word \<Rightarrow> 'a word \<Rightarrow> error + 'a word" where
  "mmx_div sg a b = c_div sg a b"

section \<open>The SSE backend\<close>

text \<open>
  \<open>add\<close> and \<open>sub\<close> have no branch for a size other than 1, 2, 4 and 8 bytes: the
  result stays \<open>0\<close> there.  \<open>mul\<close> multiplies in scalar arithmetic from 8 bytes on.
\<close>

definition sse_add :: "bool \<Rightarrow> 'a::len word \<Rightarrow> 'a word \<Rightarrow> 'a word" where
  "sse_add sg a b =
     (if sizeof a = 1 then
          (let va = mm_set1_epi8 (conv sg a); vb = mm_set1_epi8 (conv sg b);
               vc = mm_add_epi8 va vb
           in conv True (mm_extract_epi8 vc 0))
      else if sizeof a = 2 then
          (let va = mm_set1_epi16 (conv sg a); vb = mm_set1_epi16 (conv sg b);
               vc = mm_add_epi16 va vb
           in conv True (mm_extract_epi16 vc 0))
      else if sizeof a = 4 then
          (let va = mm_set1_epi32 (conv sg a); vb = mm_set1_epi32 (conv sg b);
               vc = mm_add_epi32 va vb
           in conv True (mm_extract_epi32 vc 0))
      else if sizeof a = 8 then
          (let va = mm_set1_epi64x (conv sg a); vb = mm_set1_epi64x (conv sg b);
               vc = mm_add_epi64 va vb
           in conv True (mm_extract_epi64 vc 0))
      else 0)"

definition sse_sub :: "bool \<Rightarrow> 'a::len word \<Rightarrow> 'a word \<Rightarrow> 'a word" where
  "sse_sub sg a b =
     (if sizeof a = 1 then
          (let va = mm_set1_epi8 (conv sg a); vb = mm_set1_epi8 (conv sg b);
               vc = mm_sub_epi8 va vb
           in conv True (mm_extract_epi8 vc 0))
      else if sizeof a = 2 then
          (let va = mm_set1_epi16 (conv sg a); vb = mm_set1_epi16 (conv sg b);
               vc = mm_sub_epi16 va vb
           in conv True (mm_extract_epi16 vc 0))
      else if sizeof a = 4 then
          (let va = mm_set1_epi32 (conv sg a); vb = mm_set1_epi32 (conv sg b);
               vc = mm_sub_epi32 va vb
           in conv True (mm_extract_epi32 vc 0))
      else if sizeof a = 8 then
          (let va = mm_set1_epi64x (conv sg a); vb = mm_set1_epi64x (conv sg b);
               vc = mm_sub_epi64 va vb
           in conv True (mm_extract_epi64 vc 0))
      else 0)"

definition sse_mul :: "bool \<Rightarrow> 'a::len word \<Rightarrow> 'a word \<Rightarrow> 'a word" where
  "sse_mul sg a b =
     (if sizeof a = 1 then
          (let va = mm_set1_epi16 (conv sg a); vb = mm_set1_epi16 (conv sg b);
               vc = mm_mullo_epi16 va vb
           in conv True (mm_extract_epi16 vc 0))
      else if sizeof a = 2 then
          (let va = mm_set1_epi16 (conv sg a); vb = mm_set1_epi16 (conv sg b);
               vc = mm_mullo_epi16 va vb
           in conv True (mm_extract_epi16 vc 0))
      else if sizeof a = 4 then
          (let va = mm_set1_epi32 (conv sg a); vb = mm_set1_epi32 (conv sg b);
               vc = mm_mullo_epi32 va vb
           in conv True (mm_extract_epi32 vc 0))
      else c_mul sg a b)"

definition sse_div :: "bool \<Rightarrow> 'a::len word \<Rightarrow> 'a word \<Rightarrow> error + 'a word" where
  "sse_div sg a b = c_div sg a b"

section \<open>The AVX backend\<close>

text \<open>
  Modelled from the spec: the type of 16 bytes with the two members \<^verbatim>\<open>low\<close> and
  \<^verbatim>\<open>hight\<close> that the last branch of \<open>sub\<close> reads and writes is declared nowhere in
  the repository.  The specification calls it a value representation with two half
  fields: \<open>low\<close> is the lower and \<open>hight\<close> the upper half of the 16 bytes, and
  \<open>low_hight\<close> is the value with the two members assigned.
\<close>

definition low :: "'a::len word \<Rightarrow> 64 word" where
  "low a = lane 0 a"

definition hight :: "'a::len word \<Rightarrow> 64 word" where
  "hight a = lane 1 a"

definition low_hight :: "64 word \<Rightarrow> 64 word \<Rightarrow> 'a::len word" where
  "low_hight l h = pack [l, h]"

text \<open>
  \<open>add\<close> has no branch for a size other than 1, 2, 4 and 8 bytes.
\<close>

definition avx_add :: "bool \<Rightarrow> 'a::len word \<Rightarrow> 'a word \<Rightarrow> 'a word" where
  "avx_add sg a b =
     (if sizeof a = 1 then
          (let va = mm256_set1_epi8 (conv sg a); vb = mm256_set1_epi8 (conv sg b);
               vc = mm256_add_epi8 va vb
           in conv True (mm256_extract_epi8 vc 0))
      else if sizeof a = 2 then
          (let va = mm256_set1_epi16 (conv sg a); vb = mm256_set1_epi16 (conv sg b);
               vc = mm256_add_epi16 va vb
           in conv True (mm256_extract_epi16 vc 0))
      else if sizeof a = 4 then
          (let va = mm256_set1_epi32 (conv sg a); vb = mm256_set1_epi32 (conv sg b);
               vc = mm256_add_epi32 va vb
           in conv True (mm256_extract_epi32 vc 0))
      else if sizeof a = 8 then
          (let va = mm256_set1_epi64x (conv sg a); vb = mm256_set1_epi64x (conv sg b);
               vc = mm256_add_epi64 va vb
           in conv True (mm256_extract_epi64 vc 0))
      else 0)"

text \<open>
  \<open>sub\<close> has a fifth branch, for 16 bytes, that reads the members \<^verbatim>\<open>low\<close> and
  \<^verbatim>\<open>hight\<close> of its operands and assigns those of its result.  The branch is
  compiled for every \<^verbatim>\<open>TINT\<close>, so \<open>sub\<close> is ill-formed where \<^verbatim>\<open>TINT\<close> has no
  such members.  \<open>has_low_hight\<close> says whether it has: an integer type, which is all
  that a word stands for, has no members.
\<close>

definition has_low_hight :: "'a::len word \<Rightarrow> bool" where
  "has_low_hight a = False"

definition avx_sub :: "bool \<Rightarrow> 'a::len word \<Rightarrow> 'a word \<Rightarrow> 'a word instantiated" where
  "avx_sub sg a b =
     (if has_low_hight a then Well_formed
     (if sizeof a = 1 then
          (let va = mm256_set1_epi8 (conv sg a); vb = mm256_set1_epi8 (conv sg b);
               vc = mm256_sub_epi8 va vb
           in conv True (mm256_extract_epi8 vc 0))
      else if sizeof a = 2 then
          (let va = mm256_set1_epi16 (conv sg a); vb = mm256_set1_epi16 (conv sg b);
               vc = mm256_sub_epi16 va vb
           in conv True (mm256_extract_epi16 vc 0))
      else if sizeof a = 4 then
          (let va = mm256_set1_epi32 (conv sg a); vb = mm256_set1_epi32 (conv sg b);
               vc = mm256_sub_epi32 va vb
           in conv True (mm256_extract_epi32 vc 0))
      else if sizeof a = 8 then
          (let va = mm256_set1_epi64x (conv sg a); vb = mm256_set1_epi64x (conv sg b);
               vc = mm256_sub_epi64 va vb
           in conv True (mm256_extract_epi64 vc 0))
      else if sizeof a = 16 then
          (let va = mm256_set_epi64x (low a) (hight a) 0 0;
               vb = mm256_set_epi64x (low b) (hight b) 0 0;
               vc = mm256_sub_epi64 va vb
           in low_hight (mm256_extract_epi64 vc 0) (mm256_extract_epi64 vc 1))
      else 0)
      else Ill_formed)"

text \<open>
  The branch of \<open>mul\<close> for 8 bytes calls \<^verbatim>\<open>_mm256_mullo_epi64\<close>, an intrinsic of
  AVX-512DQ with AVX-512VL, and is compiled for every \<^verbatim>\<open>TINT\<close>.  The class is
  compiled under \<^verbatim>\<open>__AVX2__\<close>, which does not provide the intrinsic: \<open>mul\<close> is
  ill-formed unless the target of the build has the two extensions as well, which
  \<open>avx512dq_vl\<close> says.  \<open>mul\<close> has no branch for a size other than 1, 2, 4 and
  8 bytes.
\<close>

definition avx_mul ::
  "bool \<Rightarrow> bool \<Rightarrow> 'a::len word \<Rightarrow> 'a word \<Rightarrow> 'a word instantiated" where
  "avx_mul avx512dq_vl sg a b =
     (if avx512dq_vl then Well_formed
     (if sizeof a = 1 then
          (let va = mm256_set1_epi16 (conv sg a); vb = mm256_set1_epi16 (conv sg b);
               vc = mm256_mullo_epi16 va vb
           in conv True (mm256_extract_epi16 vc 0))
      else if sizeof a = 2 then
          (let va = mm256_set1_epi16 (conv sg a); vb = mm256_set1_epi16 (conv sg b);
               vc = mm256_mullo_epi16 va vb
           in conv True (mm256_extract_epi16 vc 0))
      else if sizeof a = 4 then
          (let va = mm256_set1_epi32 (conv sg a); vb = mm256_set1_epi32 (conv sg b);
               vc = mm256_mullo_epi32 va vb
           in conv True (mm256_extract_epi32 vc 0))
      else if sizeof a = 8 then
          (let va = mm256_set1_epi64x (conv sg a); vb = mm256_set1_epi64x (conv sg b);
               vc = mm256_mullo_epi64 va vb
           in conv True (mm256_extract_epi64 vc 0))
      else 0)
      else Ill_formed)"

definition avx_div :: "bool \<Rightarrow> 'a::len word \<Rightarrow> 'a word \<Rightarrow> error + 'a word" where
  "avx_div sg a b = c_div sg a b"

section \<open>The technique registry\<close>

text \<open>
  \<^verbatim>\<open>techn_type\<close> is a scoped enumeration over \<^verbatim>\<open>int\<close>: a technique value is an
  integer, and the enumerators name some of them.  Which enumerators, cases and
  specialisations are compiled depends on the macros the build defines; \<open>caps\<close>
  records them.  A build that defines \<^verbatim>\<open>__NEON__\<close> is not part of the model: under
  that macro the enumeration declares \<^verbatim>\<open>AVX512 = 16\<close> and no enumerator \<^verbatim>\<open>NEON\<close>,
  so the case label \<^verbatim>\<open>techn_t::NEON\<close> of \<^verbatim>\<open>technt2string\<close> names nothing and the
  header is rejected.
\<close>

type_synonym techn_t = int

definition Scalar :: techn_t where "Scalar = 0"
definition MMX :: techn_t where "MMX = 1"
definition SSE :: techn_t where "SSE = 2"
definition AVX :: techn_t where "AVX = 4"
definition AVX512 :: techn_t where "AVX512 = 8"
definition OpenCL :: techn_t where "OpenCL = 200"
definition Vulkan :: techn_t where "Vulkan = 201"
definition internal :: techn_t where "internal = 255"

record caps =
  def_MMX :: bool
  def_SSE2 :: bool
  def_AVX2 :: bool
  def_AVX512 :: bool
  def_GPU :: bool

definition technt2string :: "caps \<Rightarrow> techn_t \<Rightarrow> string" where
  "technt2string c tech =
     (if def_MMX c \<and> tech = MMX then ''MMX''
      else if def_SSE2 c \<and> tech = SSE then ''SSE''
      else if def_AVX2 c \<and> tech = AVX then ''AVX''
      else if def_AVX512 c \<and> tech = AVX512 then ''AVX512''
      else if def_GPU c \<and> tech = OpenCL then ''OpenCL''
      else if def_GPU c \<and> tech = Vulkan then ''Vulkan''
      else ''Scalar'')"

text \<open>\<^verbatim>\<open>detected_techniq_used<TINT>()\<close>, as a function of \<^verbatim>\<open>sizeof(TINT)\<close>.\<close>

definition detected_techniq_used :: "nat \<Rightarrow> techn_t" where
  "detected_techniq_used sz =
     (let result = internal
      in if result = internal
         then (if sz \<le> 4 then Scalar else if sz \<le> 8 then SSE else AVX)
         else result)"

section \<open>Technique resolution\<close>

datatype backend =
    technique_backend_scalar
  | technique_backend_mmx
  | technique_backend_sse
  | technique_backend_avx

text \<open>
  The integer types that \<^verbatim>\<open>technique_selector\<close> is explicitly specialised for, and
  any other type.
\<close>

datatype int_type =
    uint8_t | uint16_t | uint32_t | uint64_t
  | int8_t | int16_t | int32_t | int64_t
  | other_type

text \<open>
  \<^verbatim>\<open>technique_selector<TINT, TTECH>::type\<close>.  An explicit specialisation is chosen
  before a partial one, and the primary template is what remains.  The explicit
  specialisations are written outside the conditional sections.
\<close>

definition technique_selector :: "caps \<Rightarrow> int_type \<Rightarrow> techn_t \<Rightarrow> backend" where
  "technique_selector c t tech =
     (if t \<in> {uint8_t, uint16_t, uint32_t, int8_t, int16_t, int32_t} \<and> tech = Scalar
        then technique_backend_scalar
      else if t \<in> {uint64_t, int64_t} \<and> tech = SSE then technique_backend_sse
      else if tech = Scalar then technique_backend_scalar
      else if tech = internal then technique_backend_scalar
      else if def_MMX c \<and> tech = MMX then technique_backend_mmx
      else if def_SSE2 c \<and> tech = SSE then technique_backend_sse
      else if def_AVX2 c \<and> tech = AVX then technique_backend_avx
      else if def_AVX512 c \<and> tech = AVX512 then technique_backend_avx
      else technique_backend_scalar)"

text \<open>The pairs of a type and a technique that some specialisation matches.\<close>

definition specialised :: "caps \<Rightarrow> int_type \<Rightarrow> techn_t \<Rightarrow> bool" where
  "specialised c t tech \<longleftrightarrow>
     tech = Scalar \<or> tech = internal
     \<or> (def_MMX c \<and> tech = MMX) \<or> (def_SSE2 c \<and> tech = SSE)
     \<or> (def_AVX2 c \<and> tech = AVX) \<or> (def_AVX512 c \<and> tech = AVX512)
     \<or> (t \<in> {uint64_t, int64_t} \<and> tech = SSE)"

text \<open>The static member functions of the backend a selector names.\<close>

fun backend_add :: "backend \<Rightarrow> bool \<Rightarrow> 'a::len word \<Rightarrow> 'a word \<Rightarrow> 'a word" where
  "backend_add technique_backend_scalar = scalar_add"
| "backend_add technique_backend_mmx = mmx_add"
| "backend_add technique_backend_sse = sse_add"
| "backend_add technique_backend_avx = avx_add"

fun backend_sub ::
  "backend \<Rightarrow> bool \<Rightarrow> 'a::len word \<Rightarrow> 'a word \<Rightarrow> 'a word instantiated" where
  "backend_sub technique_backend_scalar sg a b = Well_formed (scalar_sub sg a b)"
| "backend_sub technique_backend_mmx sg a b = Well_formed (mmx_sub sg a b)"
| "backend_sub technique_backend_sse sg a b = Well_formed (sse_sub sg a b)"
| "backend_sub technique_backend_avx sg a b = avx_sub sg a b"

fun backend_mul ::
  "bool \<Rightarrow> backend \<Rightarrow> bool \<Rightarrow> 'a::len word \<Rightarrow> 'a word \<Rightarrow> 'a word instantiated" where
  "backend_mul avx512dq_vl technique_backend_scalar sg a b = Well_formed (scalar_mul sg a b)"
| "backend_mul avx512dq_vl technique_backend_mmx sg a b = Well_formed (mmx_mul sg a b)"
| "backend_mul avx512dq_vl technique_backend_sse sg a b = Well_formed (sse_mul sg a b)"
| "backend_mul avx512dq_vl technique_backend_avx sg a b = avx_mul avx512dq_vl sg a b"

fun backend_div :: "backend \<Rightarrow> bool \<Rightarrow> 'a::len word \<Rightarrow> 'a word \<Rightarrow> error + 'a word" where
  "backend_div technique_backend_scalar = scalar_div"
| "backend_div technique_backend_mmx = mmx_div"
| "backend_div technique_backend_sse = sse_div"
| "backend_div technique_backend_avx = avx_div"

section \<open>The adaptive value\<close>

text \<open>
  An object of \<^verbatim>\<open>adaptive_number<TINT, TTECH>\<close> holds one member.  The technique
  \<open>TTECH\<close>, the backend \<open>bk\<close> that \<^verbatim>\<open>technique_selector\<close> names and the signedness
  \<open>sg\<close> of \<^verbatim>\<open>TINT\<close> belong to the type and are parameters of the member functions.
  A member function that assigns to the object returns the object after the call, next
  to what the function itself returns.
\<close>

record 'v adaptive_number =
  m_tiValue :: 'v

definition adaptive_value :: "'v adaptive_number \<Rightarrow> 'v" where
  "adaptive_value x = m_tiValue x"

definition get_techniq :: "techn_t \<Rightarrow> 'v adaptive_number \<Rightarrow> techn_t" where
  "get_techniq TTECH x = TTECH"

text \<open>
  In a member function declared \<^verbatim>\<open>const\<close> the members of the object are constant:
  a body that assigns a member which is not \<^verbatim>\<open>mutable\<close> is ill-formed.
  \<open>const_member\<close> takes whether the body assigns such a member, and the object the
  body would leave.
\<close>

definition const_member :: "bool \<Rightarrow> 'r \<Rightarrow> 'r instantiated" where
  "const_member assigns r = (if assigns then Ill_formed else Well_formed r)"

text \<open>
  \<^verbatim>\<open>void set(const value_type v) const { m_tiValue = v; }\<close>, where \<^verbatim>\<open>m_tiValue\<close>
  is declared without \<^verbatim>\<open>mutable\<close>.
\<close>

definition adaptive_set :: "'v \<Rightarrow> 'v adaptive_number \<Rightarrow> 'v adaptive_number instantiated" where
  "adaptive_set v x = const_member True (x\<lparr>m_tiValue := v\<rparr>)"

text \<open>
  \<^verbatim>\<open>operator ++ (int)\<close> and \<^verbatim>\<open>operator -- (int)\<close>: the literal \<open>1\<close> is an \<^verbatim>\<open>int\<close>
  converted to \<^verbatim>\<open>value_type\<close>; the member is assigned and \<^verbatim>\<open>*this\<close> is returned by
  value.  The result is the pair of the returned copy and the object after the call.
  The decrement is ill-formed where \<open>sub\<close> of the backend is.
\<close>

definition post_increment ::
  "backend \<Rightarrow> bool \<Rightarrow> 'a::len word adaptive_number
     \<Rightarrow> 'a word adaptive_number \<times> 'a word adaptive_number" where
  "post_increment bk sg x =
     (let x' = x\<lparr>m_tiValue := backend_add bk sg (m_tiValue x) (conv True (1 :: 32 word))\<rparr>
      in (x', x'))"

definition post_decrement ::
  "backend \<Rightarrow> bool \<Rightarrow> 'a::len word adaptive_number
     \<Rightarrow> ('a word adaptive_number \<times> 'a word adaptive_number) instantiated" where
  "post_decrement bk sg x =
     (case backend_sub bk sg (m_tiValue x) (conv True (1 :: 32 word)) of
        Ill_formed \<Rightarrow> Ill_formed
      | Well_formed r \<Rightarrow> (let x' = x\<lparr>m_tiValue := r\<rparr> in Well_formed (x', x')))"

section \<open>The specification's notion of wrap-around\<close>

text \<open>
  The representative of an integer \<open>k\<close> modulo two to the \<open>n\<close> in the range of a type
  of \<open>n\<close> bits: from zero for an unsigned type, around zero in two's complement for a
  signed one.
\<close>

definition wrap :: "bool \<Rightarrow> nat \<Rightarrow> int \<Rightarrow> int" where
  "wrap sg n k =
     (if sg then (k + 2 ^ (n - 1)) mod 2 ^ n - 2 ^ (n - 1) else k mod 2 ^ n)"

text \<open>
  A value strictly inside the range of its type: neither the smallest nor the largest
  value.
\<close>

definition strictly_inside :: "bool \<Rightarrow> 'a::len word \<Rightarrow> bool" where
  "strictly_inside sg v =
     (if sg then - (2 ^ (LENGTH('a) - 1)) < sint v \<and> sint v < 2 ^ (LENGTH('a) - 1) - 1
      else 0 < uint v \<and> uint v < 2 ^ LENGTH('a) - 1)"

section \<open>The specification's names of the techniques\<close>

text \<open>
  The display names a build can produce: \<open>Scalar\<close>, and the name of each technique
  whose macro the build defines.  \<open>named\<close> holds of the technique values that such
  an enumerator names.
\<close>

definition canonical_names :: "caps \<Rightarrow> string list" where
  "canonical_names c =
     [''Scalar'']
     @ (if def_MMX c then [''MMX''] else [])
     @ (if def_SSE2 c then [''SSE''] else [])
     @ (if def_AVX2 c then [''AVX''] else [])
     @ (if def_AVX512 c then [''AVX512''] else [])
     @ (if def_GPU c then [''OpenCL'', ''Vulkan''] else [])"

definition named :: "caps \<Rightarrow> techn_t \<Rightarrow> bool" where
  "named c tech \<longleftrightarrow>
     (def_MMX c \<and> tech = MMX) \<or> (def_SSE2 c \<and> tech = SSE)
     \<or> (def_AVX2 c \<and> tech = AVX) \<or> (def_AVX512 c \<and> tech = AVX512)
     \<or> (def_GPU c \<and> (tech = OpenCL \<or> tech = Vulkan))"

text \<open>
  Two builds for an x86-64 target: one that defines \<^verbatim>\<open>__MMX__\<close>, \<^verbatim>\<open>__SSE2__\<close> and
  \<^verbatim>\<open>__AVX2__\<close>, and one that defines \<^verbatim>\<open>__AVX512__\<close> as well.
\<close>

definition build_avx2 :: caps where
  "build_avx2 =
     \<lparr>def_MMX = True, def_SSE2 = True, def_AVX2 = True, def_AVX512 = False, def_GPU = False\<rparr>"

definition build_avx512 :: caps where
  "build_avx512 =
     \<lparr>def_MMX = True, def_SSE2 = True, def_AVX2 = True, def_AVX512 = True, def_GPU = False\<rparr>"

section \<open>Conversions and the ring structure\<close>

lemma conv_word_of_int: "conv sg a = word_of_int (ival sg a)"
  by (simp add: conv_def ival_def)

lemma word_of_int_ival [simp]: "word_of_int (ival sg a) = a"
  by (simp add: ival_def)

lemma conv_down_word_of_int:
  assumes "LENGTH('a::len) \<le> LENGTH('c::len)"
  shows "(conv sg (word_of_int k :: 'c word) :: 'a word) = word_of_int k"
proof -
  have d: "is_down (ucast :: 'c word \<Rightarrow> 'a word)"
    using assms by (simp add: is_down)
  have "(scast (word_of_int k :: 'c word) :: 'a word) = ucast (word_of_int k :: 'c word)"
    using down_cast_same [OF d] by metis
  then show ?thesis
    using ucast_down_wi [OF d, of k] by (simp add: conv_def)
qed

lemma conv_down_add:
  assumes "LENGTH('a::len) \<le> LENGTH('c::len)"
  shows "(conv s1 ((conv s2 (a :: 'a word) :: 'c word) + conv s2 b) :: 'a word) = a + b"
proof -
  have e: "(conv s2 a :: 'c word) + conv s2 b = word_of_int (ival s2 a + ival s2 b)"
    by (simp add: conv_word_of_int)
  have "(conv s1 (word_of_int (ival s2 a + ival s2 b) :: 'c word) :: 'a word)
      = word_of_int (ival s2 a + ival s2 b)"
    by (rule conv_down_word_of_int [OF assms])
  also have "\<dots> = a + b"
    by simp
  finally show ?thesis
    by (simp only: e)
qed

lemma conv_down_sub:
  assumes "LENGTH('a::len) \<le> LENGTH('c::len)"
  shows "(conv s1 ((conv s2 (a :: 'a word) :: 'c word) - conv s2 b) :: 'a word) = a - b"
proof -
  have e: "(conv s2 a :: 'c word) - conv s2 b = word_of_int (ival s2 a - ival s2 b)"
    by (simp add: conv_word_of_int)
  have "(conv s1 (word_of_int (ival s2 a - ival s2 b) :: 'c word) :: 'a word)
      = word_of_int (ival s2 a - ival s2 b)"
    by (rule conv_down_word_of_int [OF assms])
  also have "\<dots> = a - b"
    by simp
  finally show ?thesis
    by (simp only: e)
qed

lemma conv_down_mul:
  assumes "LENGTH('a::len) \<le> LENGTH('c::len)"
  shows "(conv s1 ((conv s2 (a :: 'a word) :: 'c word) * conv s2 b) :: 'a word) = a * b"
proof -
  have e: "(conv s2 a :: 'c word) * conv s2 b = word_of_int (ival s2 a * ival s2 b)"
    by (simp add: conv_word_of_int)
  have "(conv s1 (word_of_int (ival s2 a * ival s2 b) :: 'c word) :: 'a word)
      = word_of_int (ival s2 a * ival s2 b)"
    by (rule conv_down_word_of_int [OF assms])
  also have "\<dots> = a * b"
    by simp
  finally show ?thesis
    by (simp only: e)
qed

lemma c_add_eq: "c_add sg a b = a + b"
  by (simp add: c_add_def conv_down_add)

lemma c_sub_eq: "c_sub sg a b = a - b"
  by (simp add: c_sub_def conv_down_sub)

lemma c_mul_eq: "c_mul sg a b = a * b"
  by (simp add: c_mul_def conv_down_mul)

section \<open>Reading lane zero of a broadcast\<close>

lemma conv_down:
  assumes "LENGTH('a::len) \<le> LENGTH('r::len)"
  shows "(conv sg (v :: 'r word) :: 'a word) = ucast v"
proof -
  have d: "is_down (ucast :: 'r word \<Rightarrow> 'a word)"
    using assms by (simp add: is_down)
  show ?thesis
    using down_cast_same [OF d] by (simp add: conv_def)
qed

lemma ucast_ucast_down:
  assumes "LENGTH('a::len) \<le> LENGTH('m::len)"
  shows "(ucast (ucast (v :: 'r::len word) :: 'm word) :: 'a word) = ucast v"
  using assms by (intro bit_word_eqI) (auto simp add: bit_simps)

lemma ucast_pack_Cons:
  assumes "LENGTH('a::len) \<le> LENGTH('l::len)" and "LENGTH('a) \<le> LENGTH('r::len)"
  shows "(ucast (pack (z # zs :: 'l word list) :: 'r word) :: 'a word) = ucast z"
  using assms by (intro bit_word_eqI) (auto simp add: bit_simps)

lemma lane_0: "lane 0 v = ucast v"
  by (simp add: lane_def)

lemma lanes_Suc: "lanes (Suc n) v = lane 0 v # map (\<lambda>i. lane (Suc i) v) [0..<n]"
  by (simp add: lanes_def upt_conv_Cons map_Suc_upt [symmetric] del: upt_Suc)

lemma ucast_lanewise_set1:
  assumes "0 < n" and "LENGTH('l::len) \<le> LENGTH('r::len)" and "LENGTH('a::len) \<le> LENGTH('l)"
  shows "(ucast (lanewise n f (pack (replicate n x)) (pack (replicate n y)) :: 'r word) :: 'a word)
       = ucast (f x y :: 'l word)"
proof -
  obtain m where n: "n = Suc m"
    using assms(1) by (cases n) auto
  have x: "(lane 0 (pack (replicate n x) :: 'r word) :: 'l word) = x"
    using assms(2) by (simp add: n lane_0 ucast_pack_Cons del: pack.simps)
  have y: "(lane 0 (pack (replicate n y) :: 'r word) :: 'l word) = y"
    using assms(2) by (simp add: n lane_0 ucast_pack_Cons del: pack.simps)
  show ?thesis
    using assms(2,3) x y
    by (simp add: lanewise_def lanes_Suc [of m, folded n] ucast_pack_Cons del: pack.simps)
qed


lemma read_low:
  assumes "0 < n" and "LENGTH('l::len) \<le> LENGTH('r::len)" and "LENGTH('a::len) \<le> LENGTH('l)"
    and "LENGTH('a) \<le> LENGTH('m::len)"
  shows "(conv s (ucast (lanewise n f (pack (replicate n x)) (pack (replicate n y)) :: 'r word)
            :: 'm word) :: 'a word) = conv False (f x y :: 'l word)"
  using assms
  by (simp add: conv_down ucast_ucast_down ucast_lanewise_set1 [where 'l = 'l])

lemma read_lane_ext:
  assumes "0 < n" and "LENGTH('l::len) \<le> LENGTH('r::len)" and "LENGTH('a::len) \<le> LENGTH('l)"
    and "LENGTH('a) \<le> LENGTH('m::len)"
  shows "(conv s (ucast (lane 0 (lanewise n f (pack (replicate n x)) (pack (replicate n y))
            :: 'r word) :: 'l word) :: 'm word) :: 'a word) = conv False (f x y :: 'l word)"
  using assms
  by (simp add: lane_0 conv_down ucast_ucast_down ucast_lanewise_set1 [where 'l = 'l])

lemma read_lane:
  assumes "0 < n" and "LENGTH('l::len) \<le> LENGTH('r::len)" and "LENGTH('a::len) \<le> LENGTH('l)"
  shows "(conv s (lane 0 (lanewise n f (pack (replicate n x)) (pack (replicate n y))
            :: 'r word) :: 'l word) :: 'a word) = conv False (f x y :: 'l word)"
  using assms
  by (simp add: lane_0 conv_down ucast_ucast_down ucast_lanewise_set1 [where 'l = 'l])




lemmas mmx_defs = mm_set1_pi8_def mm_set1_pi16_def mm_set1_pi32_def m_from_int64_def
  mm_add_pi8_def mm_add_pi16_def mm_add_pi32_def mm_add_si64_def
  mm_sub_pi8_def mm_sub_pi16_def mm_sub_pi32_def mm_sub_si64_def
  mm_mullo_pi16_def mm_cvtsi64_si32_def mm_cvtm64_si64_def

lemma mmx_add_eq:
  assumes "LENGTH('a::len) = 8 \<or> LENGTH('a) = 16 \<or> LENGTH('a) = 32 \<or> LENGTH('a) = 64"
  shows "mmx_add sg (a :: 'a word) b = a + b"
  using assms
  by (elim disjE) (simp_all add: mmx_add_def sizeof_def mmx_defs read_low conv_down_add)


lemma mmx_sub_eq:
  assumes "LENGTH('a::len) = 8 \<or> LENGTH('a) = 16 \<or> LENGTH('a) = 32 \<or> LENGTH('a) = 64"
  shows "mmx_sub sg (a :: 'a word) b = a - b"
  using assms
  by (elim disjE) (simp_all add: mmx_sub_def sizeof_def mmx_defs read_low conv_down_sub)


lemmas sse_defs = mm_set1_epi8_def mm_set1_epi16_def mm_set1_epi32_def mm_set1_epi64x_def
  mm_add_epi8_def mm_add_epi16_def mm_add_epi32_def mm_add_epi64_def
  mm_sub_epi8_def mm_sub_epi16_def mm_sub_epi32_def mm_sub_epi64_def
  mm_mullo_epi16_def mm_mullo_epi32_def
  mm_extract_epi8_def mm_extract_epi16_def mm_extract_epi32_def mm_extract_epi64_def

lemma sse_add_eq:
  assumes "LENGTH('a::len) = 8 \<or> LENGTH('a) = 16 \<or> LENGTH('a) = 32 \<or> LENGTH('a) = 64"
  shows "sse_add sg (a :: 'a word) b = a + b"
  using assms
  by (elim disjE)
    (simp_all add: sse_add_def sizeof_def sse_defs read_lane read_lane_ext conv_down_add)

lemma sse_sub_eq:
  assumes "LENGTH('a::len) = 8 \<or> LENGTH('a) = 16 \<or> LENGTH('a) = 32 \<or> LENGTH('a) = 64"
  shows "sse_sub sg (a :: 'a word) b = a - b"
  using assms
  by (elim disjE)
    (simp_all add: sse_sub_def sizeof_def sse_defs read_lane read_lane_ext conv_down_sub)


lemmas avx_defs = mm256_set1_epi8_def mm256_set1_epi16_def mm256_set1_epi32_def
  mm256_set1_epi64x_def
  mm256_add_epi8_def mm256_add_epi16_def mm256_add_epi32_def mm256_add_epi64_def
  mm256_sub_epi8_def mm256_sub_epi16_def mm256_sub_epi32_def mm256_sub_epi64_def
  mm256_mullo_epi16_def mm256_mullo_epi32_def mm256_mullo_epi64_def
  mm256_extract_epi8_def mm256_extract_epi16_def mm256_extract_epi32_def
  mm256_extract_epi64_def

lemma avx_add_eq:
  assumes "LENGTH('a::len) = 8 \<or> LENGTH('a) = 16 \<or> LENGTH('a) = 32 \<or> LENGTH('a) = 64"
  shows "avx_add sg (a :: 'a word) b = a + b"
  using assms
  by (elim disjE)
    (simp_all add: avx_add_def sizeof_def avx_defs read_lane read_lane_ext conv_down_add)

lemma avx_sub_ill_formed: "avx_sub sg a b = Ill_formed"
  by (simp add: avx_sub_def has_low_hight_def)



section \<open>Values of sums, differences and products\<close>

lemma ival_add_wrap: "ival sg (a + b) = wrap sg LENGTH('a) (ival sg a + ival sg b)"
  for a b :: "'a::len word"
  by (simp add: ival_def wrap_def sint_word_ariths uint_word_ariths
      signed_take_bit_eq_take_bit_shift take_bit_eq_mod)

lemma ival_sub_wrap: "ival sg (a - b) = wrap sg LENGTH('a) (ival sg a - ival sg b)"
  for a b :: "'a::len word"
  by (simp add: ival_def wrap_def sint_word_ariths uint_word_ariths
      signed_take_bit_eq_take_bit_shift take_bit_eq_mod)

lemma ival_mul_wrap: "ival sg (a * b) = wrap sg LENGTH('a) (ival sg a * ival sg b)"
  for a b :: "'a::len word"
  by (simp add: ival_def wrap_def sint_word_ariths uint_word_ariths
      signed_take_bit_eq_take_bit_shift take_bit_eq_mod)

section \<open>The quotient\<close>

lemma sdiv_int_range:
  fixes x y N :: int
  assumes "- N \<le> x" and "x < N" and "y \<noteq> 0" and "\<not> (x = - N \<and> y = - 1)"
  shows "- N \<le> x sdiv y \<and> x sdiv y < N"
proof -
  consider "y = 1" | "y = - 1" | "2 \<le> \<bar>y\<bar>"
    using assms(3) by linarith
  then show ?thesis
  proof cases
    case 1
    then show ?thesis using assms by simp
  next
    case 2
    then show ?thesis using assms by simp
  next
    case 3
    have "0 \<le> \<bar>x\<bar> div \<bar>y\<bar>"
      by (simp add: pos_imp_zdiv_nonneg_iff assms(3))
    then have "\<bar>x sdiv y\<bar> = \<bar>x\<bar> div \<bar>y\<bar>"
      using assms(3) by (cases "x = 0") (simp_all add: signed_divide_int_def abs_mult abs_sgn_eq)
    also have "\<dots> \<le> \<bar>x\<bar> div 2"
      using 3 by (intro zdiv_mono2) simp_all
    also have "\<dots> < N"
      using assms(1,2) by linarith
    finally show ?thesis
      by linarith
  qed
qed

lemma sdiv_int_nonneg:
  fixes x y :: int
  assumes "0 \<le> x" and "0 \<le> y"
  shows "x sdiv y = x div y"
  using assms by (cases "x = 0"; cases "y = 0") (simp_all add: signed_divide_int_def)

lemma sint_conv_up:
  assumes "LENGTH('a::len) < LENGTH('c::len)"
  shows "sint (conv sg (a :: 'a word) :: 'c word) = ival sg a"
proof (cases sg)
  case True
  have "is_up (scast :: 'a word \<Rightarrow> 'c word)"
    using assms by (simp add: is_up)
  then show ?thesis
    using True by (simp add: conv_def ival_def sint_up_scast)
next
  case False
  have "is_up (ucast :: 'a word \<Rightarrow> 'c word)"
    using assms by (simp add: is_up)
  then have u: "uint (ucast a :: 'c word) = uint a"
    by (rule uint_up_ucast)
  have "(2 :: int) ^ LENGTH('a) \<le> 2 ^ (LENGTH('c) - 1)"
    using assms by (intro power_increasing) simp_all
  then have "uint a < 2 ^ (LENGTH('c) - 1)"
    using uint_lt2p [of a] by linarith
  moreover have "- (2 ^ (LENGTH('c) - 1)) \<le> uint a"
    using uint_nonnegative [of a] by (smt (verit) zero_le_power)
  ultimately have "sint (ucast a :: 'c word) = uint a"
    by (simp add: sint_uint u signed_take_bit_int_eq_self)
  then show ?thesis
    using False by (simp add: conv_def ival_def)
qed


lemma min_signed_iff: "a = min_signed \<longleftrightarrow> sint a = - (2 ^ (LENGTH('a) - 1))"
  for a :: "'a::len word"
proof -
  have "sint (word_of_int (- (2 ^ (LENGTH('a) - 1))) :: 'a word)
      = signed_take_bit (LENGTH('a) - 1) (- (2 ^ (LENGTH('a) - 1)))"
    by (rule sint_sbintrunc')
  also have "\<dots> = - (2 ^ (LENGTH('a) - 1))"
    by (simp add: signed_take_bit_int_eq_self)
  finally have "sint (min_signed :: 'a word) = - (2 ^ (LENGTH('a) - 1))"
    unfolding min_signed_def .
  then show ?thesis
    by (metis signed_word_eqI)
qed

lemma minus_one_iff: "b = - 1 \<longleftrightarrow> sint b = - 1" for b :: "'a::len word"
  by (metis sint_n1 signed_word_eqI)

lemma sint_zero_iff: "sint b = 0 \<longleftrightarrow> b = 0" for b :: "'a::len word"
  by (metis sint_0 signed_word_eqI)

lemma ival_word_of_int_quotient:
  fixes a b :: "'a::len word"
  assumes "b \<noteq> 0" and "\<not> (sg \<and> a = min_signed \<and> b = - 1)"
  shows "ival sg (word_of_int (ival sg a sdiv ival sg b) :: 'a word) = ival sg a sdiv ival sg b"
proof (cases sg)
  case True
  have "- (2 ^ (LENGTH('a) - 1)) \<le> sint a sdiv sint b
      \<and> sint a sdiv sint b < 2 ^ (LENGTH('a) - 1)"
    using assms True sint_ge [of a] sint_lt [of a]
    by (intro sdiv_int_range) (simp_all add: min_signed_iff minus_one_iff sint_zero_iff)
  then show ?thesis
    using True by (simp add: ival_def sint_sbintrunc' signed_take_bit_int_eq_self)
next
  case False
  have "uint a sdiv uint b = uint a div uint b"
    by (simp add: sdiv_int_nonneg)
  moreover have "uint a div uint b \<le> uint a"
  proof (cases "uint b = 0")
    case True
    then show ?thesis by simp
  next
    case False
    then have "1 \<le> uint b"
      using uint_nonnegative [of b] by linarith
    then have "uint a div uint b \<le> uint a div 1"
      by (intro zdiv_mono2) simp_all
    then show ?thesis by simp
  qed
  moreover have "0 \<le> uint a div uint b"
    by (simp add: div_int_pos_iff)
  moreover have "uint a div uint b < 2 ^ LENGTH('a)"
    using calculation(2) uint_lt2p [of a] by linarith
  ultimately show ?thesis
    using False by (simp add: ival_def uint_word_of_int_eq take_bit_int_eq_self)
qed

lemma c_div_quotient:
  fixes a b :: "'a::len word"
  assumes "b \<noteq> 0" and "\<not> (sg \<and> a = min_signed \<and> b = - 1)"
  shows "c_div sg a b = Inr (word_of_int (ival sg a sdiv ival sg b))"
proof (cases "LENGTH('a) < 32")
  case True
  then have "sint (conv sg a :: 32 word) = ival sg a" "sint (conv sg b :: 32 word) = ival sg b"
    by (simp_all add: sint_conv_up)
  then show ?thesis
    using True assms(1) by (simp add: c_div_def word_sdiv_def conv_down_word_of_int)
next
  case False
  show ?thesis
  proof (cases sg)
    case True
    then show ?thesis
      using False assms by (simp add: c_div_def word_sdiv_def ival_def)
  next
    case sgF: False
    have "a div b = word_of_int (uint a div uint b)"
      by (simp add: word_div_def)
    then show ?thesis
      using False sgF assms(1) by (simp add: c_div_def ival_def sdiv_int_nonneg)
  qed
qed

section \<open>Equivalence of the backends\<close>



section \<open>The arithmetic of the scalar backend\<close>

text \<open>
  C2.  \<open>add\<close>, \<open>sub\<close> and \<open>mul\<close> of the scalar backend return a value for every
  pair of operands, and its value is the sum, the difference or the product of the
  operands' values reduced modulo two to the width: into the unsigned range for an
  unsigned type, into the two's-complement range for a signed one.  On 8 bits,
  unsigned \<open>250 + 10\<close> is \<open>4\<close>, signed \<open>127 + 1\<close> is \<open>-128\<close> and unsigned
  \<open>200 * 200\<close> is \<open>64\<close>.
\<close>

theorem scalar_wraps:
  fixes a b :: "'a::len word"
  shows "ival sg (scalar_add sg a b) = wrap sg LENGTH('a) (ival sg a + ival sg b)
       \<and> ival sg (scalar_sub sg a b) = wrap sg LENGTH('a) (ival sg a - ival sg b)
       \<and> ival sg (scalar_mul sg a b) = wrap sg LENGTH('a) (ival sg a * ival sg b)
       \<and> scalar_add False (250 :: 8 word) 10 = 4
       \<and> ival True (scalar_add True (127 :: 8 word) 1) = - 128
       \<and> scalar_mul False (200 :: 8 word) 200 = 64"
  by (simp add: scalar_add_def scalar_sub_def scalar_mul_def c_add_eq c_sub_eq c_mul_eq
      ival_add_wrap ival_sub_wrap ival_mul_wrap)
     (simp add: wrap_def ival_def)

section \<open>Division\<close>

text \<open>
  C3, as stated, fails for the smallest value of a signed type divided by \<open>-1\<close>: the
  quotient is not a value of the type.  On 8 bits \<open>div(-128, -1)\<close> returns \<open>-128\<close>
  where the truncated quotient is \<open>128\<close>; on 32 bits the division raises the
  processor's divide error although the divisor is not zero.
\<close>

theorem truncating_division_counterexample:
  "(- 1 :: 8 word) \<noteq> 0
   \<and> scalar_div True (- 128 :: 8 word) (- 1) = Inr (- 128)
   \<and> ival True (- 128 :: 8 word) = - 128
   \<and> ival True (- 128 :: 8 word) sdiv ival True (- 1 :: 8 word) = 128
   \<and> (- 1 :: 32 word) \<noteq> 0
   \<and> scalar_div True (- 2147483648 :: 32 word) (- 1) = Inl DivideOverflow"
  by (simp add: scalar_div_def c_div_def word_sdiv_def conv_def ival_def min_signed_def
      signed_divide_int_def)

text \<open>
  C3, amended.  For every pair \<open>(a, b)\<close> with \<open>b\<close> not zero, other than the smallest
  value of a signed type divided by \<open>-1\<close>, \<open>div(a, b)\<close> returns the quotient of the
  values of \<open>a\<close> and \<open>b\<close> truncated towards zero (\<open>div(7, 2) = 3\<close>,
  \<open>div(-7, 2) = -3\<close>); no divisor is checked, and \<open>div(a, 0)\<close> is the fatal
  division by zero for every \<open>a\<close>, not a value.
\<close>

theorem truncating_division:
  fixes a b :: "'a::len word"
  shows "(b \<noteq> 0 \<and> \<not> (sg \<and> a = min_signed \<and> b = - 1) \<longrightarrow>
            (case scalar_div sg a b of
               Inl e \<Rightarrow> False
             | Inr q \<Rightarrow> ival sg q = ival sg a sdiv ival sg b))
       \<and> scalar_div sg a 0 = Inl DivideByZero
       \<and> scalar_div True (7 :: 32 word) 2 = Inr 3
       \<and> scalar_div True (- 7 :: 32 word) 2 = Inr (- 3)"
proof -
  have "scalar_div True (7 :: 32 word) 2 = Inr 3"
    by (simp add: scalar_div_def c_div_def word_sdiv_def min_signed_def signed_divide_int_def)
  moreover have "scalar_div True (- 7 :: 32 word) 2 = Inr (- 3)"
    by (simp add: scalar_div_def c_div_def word_sdiv_def min_signed_def signed_divide_int_def)
  moreover have "scalar_div sg a 0 = Inl DivideByZero"
    by (simp add: scalar_div_def c_div_def)
  ultimately show ?thesis
    by (simp add: scalar_div_def c_div_quotient ival_word_of_int_quotient)
qed

theorem truncating_division_witness:
  "(2 :: 8 word) \<noteq> 0 \<and> \<not> (True \<and> (- 7 :: 8 word) = min_signed \<and> (2 :: 8 word) = - 1)
   \<and> scalar_div True (- 7 :: 8 word) 2 = Inr (- 3)
   \<and> ival True (- 3 :: 8 word) = ival True (- 7 :: 8 word) sdiv ival True (2 :: 8 word)"
proof -
  have q: "scalar_div True (- 7 :: 8 word) 2 = Inr (- 3)"
    by (simp add: scalar_div_def c_div_def word_sdiv_def conv_def signed_divide_int_def)
  show ?thesis
    using truncating_division [where 'a = 8 and a = "- 7" and b = 2 and sg = True] by (simp add: q)
qed

section \<open>The default technique of a width\<close>

lemmas techn_defs = Scalar_def MMX_def SSE_def AVX_def AVX512_def OpenCL_def Vulkan_def
  internal_def

text \<open>
  C4.  The default technique depends on the size of the integer type alone: \<open>Scalar\<close>
  up to 4 bytes, \<open>SSE\<close> above 4 and up to 8 bytes, \<open>AVX\<close> above 8 bytes, and never
  the sentinel \<open>internal\<close>.
\<close>

theorem default_technique:
  "(sz \<le> 4 \<longrightarrow> detected_techniq_used sz = Scalar)
   \<and> (4 < sz \<and> sz \<le> 8 \<longrightarrow> detected_techniq_used sz = SSE)
   \<and> (8 < sz \<longrightarrow> detected_techniq_used sz = AVX)
   \<and> detected_techniq_used sz \<noteq> internal"
  by (simp add: detected_techniq_used_def techn_defs)

theorem default_technique_witness:
  "(4 :: nat) \<le> 4 \<and> detected_techniq_used 4 = Scalar
   \<and> (4 :: nat) < 8 \<and> (8 :: nat) \<le> 8 \<and> detected_techniq_used 8 = SSE
   \<and> (8 :: nat) < 16 \<and> detected_techniq_used 16 = AVX"
  using default_technique [of 4] default_technique [of 8] default_technique [of 16]
  by simp

section \<open>Resolution of a technique to a backend\<close>

text \<open>
  C5.  \<^verbatim>\<open>technique_selector\<close> names one backend for every type and technique, and
  never fails.  \<open>Scalar\<close> and \<open>internal\<close> give the scalar backend.  \<open>MMX\<close>, \<open>SSE\<close>
  and \<open>AVX\<close> give the MMX, SSE and AVX backend when their macro is defined, and
  \<open>AVX512\<close> under its macro gives the backend its specialisation names, which is the
  AVX backend.  A technique that no specialisation matches, the two GPU techniques among
  them, gives the scalar backend.
\<close>

theorem technique_resolution:
  "(tech = Scalar \<or> tech = internal \<longrightarrow> technique_selector c t tech = technique_backend_scalar)
   \<and> (def_MMX c \<and> tech = MMX \<longrightarrow> technique_selector c t tech = technique_backend_mmx)
   \<and> (def_SSE2 c \<and> tech = SSE \<longrightarrow> technique_selector c t tech = technique_backend_sse)
   \<and> (def_AVX2 c \<and> tech = AVX \<longrightarrow> technique_selector c t tech = technique_backend_avx)
   \<and> (def_AVX512 c \<and> tech = AVX512 \<longrightarrow> technique_selector c t tech = technique_backend_avx)
   \<and> (\<not> specialised c t tech \<longrightarrow> technique_selector c t tech = technique_backend_scalar)
   \<and> (tech = OpenCL \<or> tech = Vulkan \<longrightarrow> technique_selector c t tech = technique_backend_scalar)"
  by (simp add: technique_selector_def specialised_def techn_defs)

theorem technique_resolution_witness:
  "technique_selector build_avx2 int32_t internal = technique_backend_scalar
   \<and> def_MMX build_avx2 \<and> technique_selector build_avx2 int32_t MMX = technique_backend_mmx
   \<and> def_SSE2 build_avx2 \<and> technique_selector build_avx2 int32_t SSE = technique_backend_sse
   \<and> def_AVX2 build_avx2 \<and> technique_selector build_avx2 int32_t AVX = technique_backend_avx
   \<and> \<not> specialised build_avx2 int32_t AVX512
   \<and> technique_selector build_avx2 int32_t AVX512 = technique_backend_scalar
   \<and> technique_selector build_avx2 int32_t OpenCL = technique_backend_scalar
   \<and> def_AVX512 build_avx512
   \<and> technique_selector build_avx512 int32_t AVX512 = technique_backend_avx"
  using
    technique_resolution [of internal build_avx2 int32_t]
    technique_resolution [of MMX build_avx2 int32_t]
    technique_resolution [of SSE build_avx2 int32_t]
    technique_resolution [of AVX build_avx2 int32_t]
    technique_resolution [of AVX512 build_avx2 int32_t]
    technique_resolution [of OpenCL build_avx2 int32_t]
    technique_resolution [of AVX512 build_avx512 int32_t]
  by (simp add: specialised_def build_avx2_def build_avx512_def techn_defs)

section \<open>The display name of a technique\<close>

text \<open>
  C6.  \<^verbatim>\<open>technt2string\<close> returns one of the canonical names of the build:
  \<open>Scalar\<close>, or the name of a technique whose macro is defined, for that technique.
  For every other technique value, unknown or not compiled in, it returns \<open>Scalar\<close>.
\<close>

theorem technique_names:
  "technt2string c tech \<in> set (canonical_names c)
   \<and> (\<not> named c tech \<longrightarrow> technt2string c tech = ''Scalar'')
   \<and> (def_MMX c \<and> tech = MMX \<longrightarrow> technt2string c tech = ''MMX'')
   \<and> (def_SSE2 c \<and> tech = SSE \<longrightarrow> technt2string c tech = ''SSE'')
   \<and> (def_AVX2 c \<and> tech = AVX \<longrightarrow> technt2string c tech = ''AVX'')
   \<and> (def_AVX512 c \<and> tech = AVX512 \<longrightarrow> technt2string c tech = ''AVX512'')
   \<and> (def_GPU c \<and> tech = OpenCL \<longrightarrow> technt2string c tech = ''OpenCL'')
   \<and> (def_GPU c \<and> tech = Vulkan \<longrightarrow> technt2string c tech = ''Vulkan'')"
  by (simp add: technt2string_def canonical_names_def named_def techn_defs)

theorem technique_names_witness:
  "\<not> named build_avx2 77 \<and> technt2string build_avx2 77 = ''Scalar''
   \<and> \<not> named build_avx2 Vulkan \<and> technt2string build_avx2 Vulkan = ''Scalar''
   \<and> \<not> named build_avx2 AVX512 \<and> technt2string build_avx2 AVX512 = ''Scalar''
   \<and> def_MMX build_avx2 \<and> technt2string build_avx2 MMX = ''MMX''
   \<and> def_SSE2 build_avx2 \<and> technt2string build_avx2 SSE = ''SSE''
   \<and> def_AVX2 build_avx2 \<and> technt2string build_avx2 AVX = ''AVX''
   \<and> def_AVX512 build_avx512 \<and> technt2string build_avx512 AVX512 = ''AVX512''"
  using
    technique_names [of build_avx2 77]
    technique_names [of build_avx2 Vulkan]
    technique_names [of build_avx2 AVX512]
    technique_names [of build_avx2 MMX]
    technique_names [of build_avx2 SSE]
    technique_names [of build_avx2 AVX]
    technique_names [of build_avx512 AVX512]
  by (simp add: named_def build_avx2_def build_avx512_def techn_defs)

section \<open>Increment and decrement\<close>

lemma one_literal: "(conv True (1 :: 32 word) :: 'a::len word) = 1"
  by (simp add: conv_def)

lemma backend_add_eq:
  assumes "LENGTH('a::len) \<in> {8, 16, 32, 64}"
  shows "backend_add bk sg (a :: 'a word) b = a + b"
proof -
  have w: "LENGTH('a) = 8 \<or> LENGTH('a) = 16 \<or> LENGTH('a) = 32 \<or> LENGTH('a) = 64"
    using assms by simp
  show ?thesis
    by (cases bk)
      (simp_all add: scalar_add_def c_add_eq mmx_add_eq [OF w] sse_add_eq [OF w]
        avx_add_eq [OF w])
qed

lemma backend_sub_eq:
  assumes "LENGTH('a::len) \<in> {8, 16, 32, 64}" and "bk \<noteq> technique_backend_avx"
  shows "backend_sub bk sg (a :: 'a word) b = Well_formed (a - b)"
proof -
  have w: "LENGTH('a) = 8 \<or> LENGTH('a) = 16 \<or> LENGTH('a) = 32 \<or> LENGTH('a) = 64"
    using assms(1) by simp
  show ?thesis
    using assms(2)
    by (cases bk)
      (simp_all add: scalar_sub_def c_sub_eq mmx_sub_eq [OF w] sse_sub_eq [OF w])
qed

lemma scalar_round_trip:
  "post_decrement technique_backend_scalar sg (snd (post_increment technique_backend_scalar sg x))
     = Well_formed (x, x)"
  by (simp add: post_increment_def post_decrement_def one_literal Let_def scalar_add_def
      scalar_sub_def c_add_eq c_sub_eq)

lemma vector_round_trip:
  fixes x :: "'a::len word adaptive_number"
  assumes "LENGTH('a) \<in> {8, 16, 32, 64}" and "bk \<noteq> technique_backend_avx"
  shows "post_decrement bk sg (snd (post_increment bk sg x)) = Well_formed (x, x)"
  by (simp add: post_increment_def post_decrement_def one_literal Let_def
      backend_add_eq [OF assms(1)] backend_sub_eq [OF assms])

text \<open>
  C7.  The increment assigns \<open>add(v, 1)\<close> and the decrement \<open>sub(v, 1)\<close>, where the
  literal is converted to the type.  One increment followed by one decrement holds the
  value again for every adaptive value on the scalar backend, and on the MMX and the SSE
  backend for a type of 1, 2, 4 or 8 bytes.  On the AVX backend the decrement cannot be
  instantiated for any integer type, because it calls \<open>sub\<close> of that backend.  On the
  SSE backend, a value of 16 bytes that holds \<open>5\<close> holds \<open>0\<close> after the two
  operations.
\<close>

theorem increment_decrement:
  fixes x :: "'a::len word adaptive_number"
  shows "adaptive_value (snd (post_increment bk sg x)) = backend_add bk sg (adaptive_value x) 1
       \<and> post_decrement technique_backend_avx sg x = Ill_formed
       \<and> (strictly_inside sg (adaptive_value x)
            \<and> (bk = technique_backend_scalar
               \<or> (bk = technique_backend_mmx \<or> bk = technique_backend_sse)
                  \<and> LENGTH('a) \<in> {8, 16, 32, 64}) \<longrightarrow>
          post_decrement bk sg (snd (post_increment bk sg x)) = Well_formed (x, x))
       \<and> post_decrement technique_backend_sse False
            (snd (post_increment technique_backend_sse False \<lparr>m_tiValue = (5 :: 128 word)\<rparr>))
          = Well_formed (\<lparr>m_tiValue = 0\<rparr>, \<lparr>m_tiValue = 0\<rparr>)"
proof -
  have "adaptive_value (snd (post_increment bk sg x)) = backend_add bk sg (adaptive_value x) 1"
    by (simp add: post_increment_def adaptive_value_def one_literal Let_def)
  moreover have "post_decrement technique_backend_avx sg x = Ill_formed"
    by (simp add: post_decrement_def avx_sub_ill_formed)
  moreover have "post_decrement bk sg (snd (post_increment bk sg x)) = Well_formed (x, x)"
    if "bk = technique_backend_scalar
        \<or> (bk = technique_backend_mmx \<or> bk = technique_backend_sse)
           \<and> LENGTH('a) \<in> {8, 16, 32, 64}"
    using that scalar_round_trip [of sg x] vector_round_trip [of bk sg x] by auto
  moreover have "post_decrement technique_backend_sse False
      (snd (post_increment technique_backend_sse False \<lparr>m_tiValue = (5 :: 128 word)\<rparr>))
    = Well_formed (\<lparr>m_tiValue = 0\<rparr>, \<lparr>m_tiValue = 0\<rparr>)"
    by (simp add: post_increment_def post_decrement_def sse_add_def sse_sub_def sizeof_def
        Let_def)
  ultimately show ?thesis
    by blast
qed

theorem increment_decrement_witness:
  "strictly_inside True (adaptive_value \<lparr>m_tiValue = (5 :: 32 word)\<rparr>)
   \<and> LENGTH(32) \<in> {8, 16, 32, 64 :: nat}
   \<and> adaptive_value (snd (post_increment technique_backend_sse True \<lparr>m_tiValue = (5 :: 32 word)\<rparr>)) = 6
   \<and> post_decrement technique_backend_sse True
        (snd (post_increment technique_backend_sse True \<lparr>m_tiValue = (5 :: 32 word)\<rparr>))
      = Well_formed (\<lparr>m_tiValue = 5\<rparr>, \<lparr>m_tiValue = 5\<rparr>)
   \<and> adaptive_value (snd (post_increment technique_backend_avx True \<lparr>m_tiValue = (5 :: 32 word)\<rparr>)) = 6
   \<and> post_decrement technique_backend_avx True \<lparr>m_tiValue = (6 :: 32 word)\<rparr> = Ill_formed"
proof -
  have i: "strictly_inside True (adaptive_value \<lparr>m_tiValue = (5 :: 32 word)\<rparr>)"
    by (simp add: strictly_inside_def adaptive_value_def)
  show ?thesis
    using i
      increment_decrement [where 'a = 32 and bk = technique_backend_sse and sg = True
        and x = "\<lparr>m_tiValue = 5\<rparr>"]
      increment_decrement [where 'a = 32 and bk = technique_backend_avx and sg = True
        and x = "\<lparr>m_tiValue = 5\<rparr>"]
      increment_decrement [where 'a = 32 and bk = technique_backend_avx and sg = True
        and x = "\<lparr>m_tiValue = 6\<rparr>"]
    by (simp add: adaptive_value_def sse_add_eq avx_add_eq)
qed

section \<open>Assignment of a value\<close>

text \<open>
  C8.  \<open>set\<close> is declared \<^verbatim>\<open>const\<close> and its body assigns the member, so no call of
  it can be instantiated, for any value and any object: no program reaches the state in
  which \<open>value()\<close> would return \<open>v\<close>.  \<open>get_techniq()\<close> returns the technique of
  the type for every object.
\<close>

theorem set_ill_formed:
  "adaptive_set v x = Ill_formed \<and> get_techniq TTECH x = TTECH"
  by (simp add: adaptive_set_def const_member_def get_techniq_def)

section \<open>Sizes without a branch\<close>

text \<open>
  C9.  For a type whose size is not 1, 2, 4 or 8 bytes, \<open>add\<close> and \<open>sub\<close> of the
  SSE backend and \<open>add\<close> of the AVX backend return \<open>0\<close> for every pair of
  operands, and \<open>add\<close> of the MMX backend returns the scalar sum.
\<close>

theorem unhandled_size_returns_zero:
  fixes a b :: "'a::len word"
  assumes "sizeof a \<notin> {1, 2, 4, 8}"
  shows "sse_add sg a b = 0 \<and> sse_sub sg a b = 0 \<and> avx_add sg a b = 0
       \<and> mmx_add sg a b = scalar_add sg a b \<and> mmx_add sg a b = a + b"
  using assms
  by (simp add: sse_add_def sse_sub_def avx_add_def mmx_add_def scalar_add_def c_add_eq)

theorem unhandled_size_returns_zero_witness:
  "sizeof (5 :: 128 word) \<notin> {1, 2, 4, 8}
   \<and> sse_add False (5 :: 128 word) 7 = 0 \<and> sse_sub False (5 :: 128 word) 7 = 0
   \<and> avx_add False (5 :: 128 word) 7 = 0 \<and> mmx_add False (5 :: 128 word) 7 = 12"
proof -
  have h: "sizeof (5 :: 128 word) \<notin> {1, 2, 4, 8}"
    by (simp add: sizeof_def)
  show ?thesis
    using h unhandled_size_returns_zero [OF h, of False 7]
    by (simp add: scalar_add_def c_add_eq)
qed

section \<open>What the postfix operators return\<close>

text \<open>
  C10.  The postfix increment assigns the member and returns the object after the
  assignment: the value returned by \<open>x++\<close> holds \<open>add(v, 1)\<close>, where \<open>v\<close> is what
  \<open>x\<close> held, and \<open>x\<close> holds the same afterwards.  So does the postfix decrement on
  the scalar, the MMX and the SSE backend: the value returned by \<open>x--\<close> holds
  \<open>sub(v, 1)\<close>.  For a type of 1, 2, 4 or 8 bytes the returned values differ from
  \<open>v\<close>.
\<close>

theorem postfix_returns_updated:
  fixes x :: "'a::len word adaptive_number"
  shows "fst (post_increment bk sg x) = snd (post_increment bk sg x)
       \<and> adaptive_value (fst (post_increment bk sg x)) = backend_add bk sg (adaptive_value x) 1
       \<and> post_decrement technique_backend_scalar sg x
          = Well_formed (\<lparr>m_tiValue = scalar_sub sg (adaptive_value x) 1\<rparr>,
                         \<lparr>m_tiValue = scalar_sub sg (adaptive_value x) 1\<rparr>)
       \<and> post_decrement technique_backend_mmx sg x
          = Well_formed (\<lparr>m_tiValue = mmx_sub sg (adaptive_value x) 1\<rparr>,
                         \<lparr>m_tiValue = mmx_sub sg (adaptive_value x) 1\<rparr>)
       \<and> post_decrement technique_backend_sse sg x
          = Well_formed (\<lparr>m_tiValue = sse_sub sg (adaptive_value x) 1\<rparr>,
                         \<lparr>m_tiValue = sse_sub sg (adaptive_value x) 1\<rparr>)
       \<and> (LENGTH('a) \<in> {8, 16, 32, 64} \<longrightarrow>
            adaptive_value (fst (post_increment bk sg x)) \<noteq> adaptive_value x
            \<and> scalar_sub sg (adaptive_value x) 1 \<noteq> adaptive_value x
            \<and> mmx_sub sg (adaptive_value x) 1 \<noteq> adaptive_value x
            \<and> sse_sub sg (adaptive_value x) 1 \<noteq> adaptive_value x)"
proof -
  have "adaptive_value (fst (post_increment bk sg x)) \<noteq> adaptive_value x
      \<and> scalar_sub sg (adaptive_value x) 1 \<noteq> adaptive_value x
      \<and> mmx_sub sg (adaptive_value x) 1 \<noteq> adaptive_value x
      \<and> sse_sub sg (adaptive_value x) 1 \<noteq> adaptive_value x"
    if w: "LENGTH('a) \<in> {8, 16, 32, 64}"
  proof -
    have d: "LENGTH('a) = 8 \<or> LENGTH('a) = 16 \<or> LENGTH('a) = 32 \<or> LENGTH('a) = 64"
      using w by simp
    show ?thesis
      by (simp add: post_increment_def adaptive_value_def Let_def one_literal
          backend_add_eq [OF w] scalar_sub_def c_sub_eq mmx_sub_eq [OF d] sse_sub_eq [OF d])
  qed
  then show ?thesis
    by (simp add: post_increment_def post_decrement_def adaptive_value_def Let_def one_literal)
qed

theorem postfix_returns_updated_witness:
  "LENGTH(8) \<in> {8, 16, 32, 64 :: nat}
   \<and> adaptive_value (fst (post_increment technique_backend_mmx False \<lparr>m_tiValue = (5 :: 8 word)\<rparr>)) = 6
   \<and> adaptive_value (snd (post_increment technique_backend_mmx False \<lparr>m_tiValue = (5 :: 8 word)\<rparr>)) = 6
   \<and> post_decrement technique_backend_mmx False \<lparr>m_tiValue = (5 :: 8 word)\<rparr>
      = Well_formed (\<lparr>m_tiValue = 4\<rparr>, \<lparr>m_tiValue = 4\<rparr>)
   \<and> adaptive_value \<lparr>m_tiValue = (5 :: 8 word)\<rparr> = 5"
  using postfix_returns_updated
    [where 'a = 8 and bk = technique_backend_mmx and sg = False and x = "\<lparr>m_tiValue = 5\<rparr>"]
  by (auto simp add: adaptive_value_def mmx_add_eq mmx_sub_eq)

end
